theory Spec2Isabelle
  imports Main
begin

section \<open>Values exchanged with clients and with the persistence service\<close>

text \<open>
  Payloads of Socket.IO events and bodies of HTTP responses are decoded JSON. A field
  that is not there reads as \<open>undefined\<close>. An object is the list of its own properties
  (the first binding of a key is the one read).

  The server never computes with a number: it tests it and prints it. So a number is
  carried by the text JavaScript prints for it (\<open>0\<close> for both zeros, \<open>10\<close>, \<open>0.5\<close>,
  \<open>1e+21\<close>, \<open>NaN\<close>).

  A string is the list of the bytes of its UTF-8 encoding, where an unpaired surrogate
  (which a JavaScript string may hold) is written as the three bytes \<open>ED A0..BF 80..BF\<close>
  of its code point.
\<close>

datatype jsval =
    JUndefined
  | JNull
  | JBool bool
  | JNum string
  | JStr string
  | JArr "jsval list"
  | JObj "(string \<times> jsval) list"

text \<open>
  An Error object that is thrown, or that a promise is rejected with: its \<open>message\<close> and,
  for an error of the HTTP client that carries a response, the body of that response
  (\<open>err.response.data\<close>).
\<close>

datatype js_error = JsError (message: string) (response_data: "jsval option")

text \<open>What \<open>!v\<close>, \<open>v && ...\<close>, \<open>v || ...\<close> and \<open>if (v)\<close> test.\<close>

fun truthy :: "jsval \<Rightarrow> bool" where
  "truthy JUndefined = False"
| "truthy JNull = False"
| "truthy (JBool b) = b"
| "truthy (JNum t) = (t \<noteq> ''0'' \<and> t \<noteq> ''NaN'')"
| "truthy (JStr s) = (s \<noteq> [])"
| "truthy (JArr xs) = True"
| "truthy (JObj kvs) = True"

text \<open>
  \<open>v.k\<close> on a value that is neither \<open>undefined\<close> nor \<open>null\<close>, for the keys the
  server reads (\<open>author\<close>, \<open>name\<close>, \<open>point\<close>, \<open>data\<close>, \<open>message\<close>): none of them is
  inherited from a prototype, so only an object's own property is found.
\<close>

fun get_prop :: "jsval \<Rightarrow> string \<Rightarrow> jsval" where
  "get_prop (JObj kvs) k = (case map_of kvs k of None \<Rightarrow> JUndefined | Some v \<Rightarrow> v)"
| "get_prop v k = JUndefined"

text \<open>Optional chaining \<open>v?.k\<close>.\<close>

definition opt_prop :: "jsval \<Rightarrow> string \<Rightarrow> jsval" where
  "opt_prop v k = (if v = JUndefined \<or> v = JNull then JUndefined else get_prop v k)"

subsection \<open>Conversion to a string inside a template literal\<close>

definition type_error :: js_error where
  "type_error = JsError ''Cannot convert object to primitive value'' None"

text \<open>
  \<open>`${v}`\<close>. An array is the join of its elements with a comma, \<open>undefined\<close> and \<open>null\<close>
  elements giving the empty string. A decoded object has no callable property, so one with
  an own \<open>toString\<close> cannot be converted (a TypeError), and any other prints as
  \<open>[object Object]\<close>.
\<close>

fun to_str :: "jsval \<Rightarrow> js_error + string"
  and join_elems :: "jsval list \<Rightarrow> js_error + string" where
  "to_str JUndefined = Inr ''undefined''"
| "to_str JNull = Inr ''null''"
| "to_str (JBool b) = Inr (if b then ''true'' else ''false'')"
| "to_str (JNum t) = Inr t"
| "to_str (JStr s) = Inr s"
| "to_str (JArr xs) = join_elems xs"
| "to_str (JObj kvs) =
     (if ''toString'' \<in> fst ` set kvs then Inl type_error else Inr ''[object Object]'')"
| "join_elems [] = Inr []"
| "join_elems (x # xs) =
     (case (if x = JUndefined \<or> x = JNull then Inr [] else to_str x) of
        Inl e \<Rightarrow> Inl e
      | Inr s \<Rightarrow>
          (if xs = [] then Inr s
           else (case join_elems xs of
                   Inl e \<Rightarrow> Inl e
                 | Inr t \<Rightarrow> Inr (s @ '','' @ t))))"

section \<open>Room names\<close>

text \<open>
  \<^verbatim>\<open>function roomName(author, name) { return `room:${author}-${name}` }\<close>
\<close>

definition roomName :: "jsval \<Rightarrow> jsval \<Rightarrow> js_error + string" where
  "roomName author name =
     (case to_str author of
        Inl e \<Rightarrow> Inl e
      | Inr a \<Rightarrow>
          (case to_str name of
             Inl e \<Rightarrow> Inl e
           | Inr n \<Rightarrow> Inr (''room:'' @ a @ ''-'' @ n)))"

section \<open>The HTTP client towards the persistence service\<close>

text \<open>
  \<open>encodeURIComponent(v)\<close> converts its argument to a string, throws a URIError when
  the string holds an unpaired surrogate, and otherwise escapes every byte of the UTF-8
  encoding as \<open>%XX\<close>, except the unreserved characters
  \<open>A-Z a-z 0-9 - _ . ! ~ * ' ( )\<close>. In the byte form of a string, the byte \<open>ED\<close> is
  followed by one of \<open>A0..BF\<close> exactly where an unpaired surrogate stands.
\<close>

fun lone_surrogate :: "string \<Rightarrow> bool" where
  "lone_surrogate (c # d # cs) =
     ((of_char c = (0xED :: nat) \<and> (0xA0 :: nat) \<le> of_char d \<and> of_char d \<le> (0xBF :: nat))
      \<or> lone_surrogate (d # cs))"
| "lone_surrogate cs = False"

definition uri_error :: js_error where
  "uri_error = JsError ''URI malformed'' None"

definition uri_unreserved :: "char \<Rightarrow> bool" where
  "uri_unreserved c =
     (c \<in> set (''ABCDEFGHIJKLMNOPQRSTUVWXYZabcdefghijklmnopqrstuvwxyz0123456789-_.!~*()''
               @ [CHR 0x27]))"

definition hex_digit :: "nat \<Rightarrow> char" where
  "hex_digit d = ''0123456789ABCDEF'' ! (d mod 16)"

definition percent_encode :: "string \<Rightarrow> string" where
  "percent_encode s =
     concat (map (\<lambda>c. if uri_unreserved c then [c]
                       else [CHR ''%'', hex_digit (of_char c div 16), hex_digit (of_char c mod 16)])
                 s)"

definition encodeURIComponent :: "jsval \<Rightarrow> js_error + string" where
  "encodeURIComponent v =
     (case to_str v of
        Inl e \<Rightarrow> Inl e
      | Inr s \<Rightarrow> (if lone_surrogate s then Inl uri_error else Inr (percent_encode s)))"

text \<open>
  The axios instance \<open>spring\<close>: what \<open>spring.put(url, body)\<close> and \<open>spring.get(url)\<close>
  settle with when awaited. \<open>Inl\<close> is the rejection (a network error, the 5 second
  timeout, a status outside 2xx), \<open>Inr\<close> the body \<open>res.data\<close> of the response.
\<close>

record spring =
  spring_put :: "string \<Rightarrow> jsval \<Rightarrow> js_error + jsval"
  spring_get :: "string \<Rightarrow> js_error + jsval"

type_synonym sid = string

text \<open>
  What a handler does to the outside, in the order it does it: requests to the
  persistence service, events sent to one socket, calls of the acknowledgment, and events
  sent to a room together with the sockets that are in the room at that moment.
\<close>

datatype effect =
    HttpPut string jsval
  | HttpGet string
  | SocketEmit sid string jsval
  | AckCall jsval
  | RoomEmit string string jsval "sid set"

text \<open>
  \<^verbatim>\<open>async function persistPoint(author, name, point) {
    const url = `/api/v1/blueprints/${encodeURIComponent(author)}/${encodeURIComponent(name)}/points`
    return spring.put(url, point) }\<close>
  An exception inside an async function rejects its promise: when an argument cannot be
  encoded, no request is made.
\<close>

definition persistPoint ::
  "spring \<Rightarrow> jsval \<Rightarrow> jsval \<Rightarrow> jsval \<Rightarrow> effect list \<times> (js_error + jsval)" where
  "persistPoint sp author name point =
     (case encodeURIComponent author of
        Inl e \<Rightarrow> ([], Inl e)
      | Inr a \<Rightarrow>
          (case encodeURIComponent name of
             Inl e \<Rightarrow> ([], Inl e)
           | Inr n \<Rightarrow>
               (let url = ''/api/v1/blueprints/'' @ a @ ''/'' @ n @ ''/points''
                in ([HttpPut url point], spring_put sp url point))))"

text \<open>
  \<^verbatim>\<open>async function fetchBlueprint(author, name) {
    const url = `/api/v1/blueprints/${encodeURIComponent(author)}/${encodeURIComponent(name)}`
    const res = await spring.get(url)
    return res.data && res.data.data ? res.data.data : null }\<close>
\<close>

definition fetchBlueprint ::
  "spring \<Rightarrow> jsval \<Rightarrow> jsval \<Rightarrow> effect list \<times> (js_error + jsval)" where
  "fetchBlueprint sp author name =
     (case encodeURIComponent author of
        Inl e \<Rightarrow> ([], Inl e)
      | Inr a \<Rightarrow>
          (case encodeURIComponent name of
             Inl e \<Rightarrow> ([], Inl e)
           | Inr n \<Rightarrow>
               (let url = ''/api/v1/blueprints/'' @ a @ ''/'' @ n
                in ([HttpGet url],
                    (case spring_get sp url of
                       Inl e \<Rightarrow> Inl e
                     | Inr data \<Rightarrow>
                         Inr (if truthy data \<and> truthy (get_prop data ''data'')
                              then get_prop data ''data'' else JNull))))))"

section \<open>Rooms\<close>

type_synonym rooms = "string \<Rightarrow> sid set"

text \<open>
  The server keeps no registry of its own: membership is held by the Socket.IO library,
  whose code is not part of the sources. Its four operations follow the Room Registry of
  section 4.1 of the specification.
\<close>

text \<open>
  Modelled from the spec: \<open>join(roomKey, connection)\<close>, "idempotent --- adds connection
  to the room's member set if absent". The library's \<open>socket.join(room)\<close> is missing
  from the sources.
\<close>

definition socket_join :: "rooms \<Rightarrow> sid \<Rightarrow> string \<Rightarrow> rooms" where
  "socket_join rs s room = rs(room := insert s (rs room))"

text \<open>
  Modelled from the spec: \<open>leave(roomKey, connection)\<close>, "idempotent --- removes
  connection if present; no error if absent or room doesn't exist". The library's
  \<open>socket.leave(room)\<close> is missing from the sources.
\<close>

definition socket_leave :: "rooms \<Rightarrow> sid \<Rightarrow> string \<Rightarrow> rooms" where
  "socket_leave rs s room = rs(room := rs room - {s})"

text \<open>
  Modelled from the spec: \<open>broadcast(roomKey, eventName, payload)\<close>, which "delivers
  payload to every current member of the room, including a member that itself triggered
  the originating action". The library's \<open>io.to(room).emit(event, payload)\<close> is missing
  from the sources.
\<close>

definition io_to_emit :: "rooms \<Rightarrow> string \<Rightarrow> string \<Rightarrow> jsval \<Rightarrow> effect" where
  "io_to_emit rs room ev payload = RoomEmit room ev payload (rs room)"

text \<open>
  Modelled from the spec: \<open>removeConnectionEverywhere(connection)\<close>, "called on
  disconnect; removes the connection from every room it belongs to". The library does
  this when a socket closes, before the server's \<open>disconnect\<close> listener runs; it is
  missing from the sources.
\<close>

definition removeConnectionEverywhere :: "rooms \<Rightarrow> sid \<Rightarrow> rooms" where
  "removeConnectionEverywhere rs s = (\<lambda>room. rs room - {s})"

section \<open>Handlers of one connection\<close>

text \<open>The second argument of \<open>draw-event\<close>: the client's callback, or whatever else was sent.\<close>

datatype ack_arg = AckFn | AckVal jsval

fun is_function :: "ack_arg \<Rightarrow> bool" where
  "is_function AckFn = True"
| "is_function (AckVal v) = False"

text \<open>\<^verbatim>\<open>if (typeof ack === 'function') ack(v)\<close>\<close>

definition call_ack :: "ack_arg \<Rightarrow> jsval \<Rightarrow> effect list" where
  "call_ack ack v = (if is_function ack then [AckCall v] else [])"

definition msg_obj :: "string \<Rightarrow> jsval" where
  "msg_obj m = JObj [(''message'', JStr m)]"

definition ack_fail :: "string \<Rightarrow> jsval" where
  "ack_fail m = JObj [(''ok'', JBool False), (''message'', JStr m)]"

definition ack_ok :: jsval where
  "ack_ok = JObj [(''ok'', JBool True)]"

subsection \<open>join-room\<close>

text \<open>
  The handler of \<open>join-room\<close> (server.js, lines 59 to 84). The room is joined before the
  blueprint is fetched; a rejected fetch, an unencodable author or name included, ends in
  the inner \<open>catch\<close>. The only exception that reaches the outer \<open>catch\<close> is the one
  \<open>roomName\<close> can throw; nothing has been done by then.
\<close>

definition join_room :: "spring \<Rightarrow> rooms \<Rightarrow> sid \<Rightarrow> jsval \<Rightarrow> effect list \<times> rooms" where
  "join_room sp rs s payload =
     (if \<not> truthy payload \<or> \<not> truthy (get_prop payload ''author'')
         \<or> \<not> truthy (get_prop payload ''name'')
      then ([SocketEmit s ''error'' (msg_obj ''join-room: missing author or name'')], rs)
      else
        (case roomName (get_prop payload ''author'') (get_prop payload ''name'') of
           Inl e \<Rightarrow> ([SocketEmit s ''error'' (msg_obj ''Internal error on join-room'')], rs)
         | Inr room \<Rightarrow>
             (let rs' = socket_join rs s room in
              (case fetchBlueprint sp (get_prop payload ''author'') (get_prop payload ''name'') of
                 (fx, Inr bp) \<Rightarrow>
                   (fx @ (if truthy bp then [SocketEmit s ''blueprint-update'' bp] else []), rs')
               | (fx, Inl err) \<Rightarrow>
                   (fx @ [SocketEmit s ''warning''
                            (msg_obj ''Could not fetch blueprint state from API'')], rs')))))"

subsection \<open>draw-event\<close>

text \<open>
  \<^verbatim>\<open>`Failed to persist point: ${err?.response?.data?.message || err.message}`\<close>
  The message of the service's response can be any decoded value, so the conversion can throw.
\<close>

definition persist_failure_msg :: "js_error \<Rightarrow> js_error + string" where
  "persist_failure_msg err =
     (let m = (case response_data err of
                 None \<Rightarrow> JUndefined
               | Some d \<Rightarrow> opt_prop d ''message'')
      in (case to_str (if truthy m then m else JStr (message err)) of
            Inl e \<Rightarrow> Inl e
          | Inr t \<Rightarrow> Inr (''Failed to persist point: '' @ t)))"

text \<open>The outer \<open>catch\<close> of the handler (lines 139 to 143).\<close>

definition internal_error :: "sid \<Rightarrow> ack_arg \<Rightarrow> effect list" where
  "internal_error s ack =
     call_ack ack (ack_fail ''Internal server error'')
     @ [SocketEmit s ''error'' (msg_obj ''Internal server error handling draw-event'')]"

text \<open>
  The handler of \<open>draw-event\<close> (lines 87 to 144). \<open>rs\<close> is the membership at the moment
  \<open>io.to(room).emit\<close> runs; the handler does not change it.
\<close>

definition draw_event :: "spring \<Rightarrow> rooms \<Rightarrow> sid \<Rightarrow> jsval \<Rightarrow> ack_arg \<Rightarrow> effect list" where
  "draw_event sp rs s payload ack =
     (if \<not> truthy payload \<or> \<not> truthy (get_prop payload ''author'')
         \<or> \<not> truthy (get_prop payload ''name'') \<or> \<not> truthy (get_prop payload ''point'')
      then
        (let msg = ''draw-event: missing author, name or point''
         in call_ack ack (ack_fail msg) @ [SocketEmit s ''error'' (msg_obj msg)])
      else
        (let author = get_prop payload ''author'';
             name = get_prop payload ''name'';
             point = get_prop payload ''point''
         in (case roomName author name of
               Inl e \<Rightarrow> internal_error s ack
             | Inr room \<Rightarrow>
                 (case persistPoint sp author name point of
                    (fx1, Inl err) \<Rightarrow>
                      (case persist_failure_msg err of
                         Inl e \<Rightarrow> fx1 @ internal_error s ack
                       | Inr msg \<Rightarrow>
                           fx1 @ call_ack ack (ack_fail msg)
                           @ [SocketEmit s ''error'' (msg_obj msg)])
                  | (fx1, Inr res) \<Rightarrow>
                      (case fetchBlueprint sp author name of
                         (fx2, Inl err) \<Rightarrow>
                           (let msg = ''Failed to fetch updated blueprint: '' @ message err
                            in fx1 @ fx2 @ call_ack ack (ack_fail msg)
                               @ [SocketEmit s ''warning'' (msg_obj msg)])
                       | (fx2, Inr updatedBlueprint) \<Rightarrow>
                           (if \<not> truthy updatedBlueprint
                            then
                              (let msg = ''Blueprint not found after persisting point''
                               in fx1 @ fx2 @ call_ack ack (ack_fail msg)
                                  @ [SocketEmit s ''warning'' (msg_obj msg)])
                            else
                              fx1 @ fx2
                              @ [io_to_emit rs room ''blueprint-update'' updatedBlueprint]
                              @ call_ack ack ack_ok))))))"

subsection \<open>leave-room and disconnect\<close>

text \<open>The handler of \<open>leave-room\<close> (lines 147 to 156); its \<open>catch\<close> only logs.\<close>

definition leave_room :: "rooms \<Rightarrow> sid \<Rightarrow> jsval \<Rightarrow> rooms" where
  "leave_room rs s payload =
     (if \<not> truthy payload \<or> \<not> truthy (get_prop payload ''author'')
         \<or> \<not> truthy (get_prop payload ''name'')
      then rs
      else
        (case roomName (get_prop payload ''author'') (get_prop payload ''name'') of
           Inl e \<Rightarrow> rs
         | Inr room \<Rightarrow> socket_leave rs s room))"

text \<open>
  A socket closing: the library takes it out of its rooms, then the \<open>disconnect\<close>
  listener (lines 158 to 160) runs, which only logs.
\<close>

definition disconnect :: "rooms \<Rightarrow> sid \<Rightarrow> rooms" where
  "disconnect rs s = removeConnectionEverywhere rs s"

section \<open>The server as a sequence of events\<close>

datatype event =
    JoinRoom sid jsval
  | DrawEvent sid jsval ack_arg
  | LeaveRoom sid jsval
  | Disconnect sid

fun issuer :: "event \<Rightarrow> sid" where
  "issuer (JoinRoom s p) = s"
| "issuer (DrawEvent s p a) = s"
| "issuer (LeaveRoom s p) = s"
| "issuer (Disconnect s) = s"

fun handle :: "spring \<Rightarrow> rooms \<Rightarrow> event \<Rightarrow> effect list \<times> rooms" where
  "handle sp rs (JoinRoom s p) = join_room sp rs s p"
| "handle sp rs (DrawEvent s p a) = (draw_event sp rs s p a, rs)"
| "handle sp rs (LeaveRoom s p) = ([], leave_room rs s p)"
| "handle sp rs (Disconnect s) = ([], disconnect rs s)"

text \<open>
  Each event comes with the answers the persistence service gives while it is handled.
\<close>

fun run :: "rooms \<Rightarrow> (spring \<times> event) list \<Rightarrow> effect list \<times> rooms" where
  "run rs [] = ([], rs)"
| "run rs ((sp, ev) # rest) =
     (case handle sp rs ev of
        (fx, rs') \<Rightarrow> (case run rs' rest of (fx', rs'') \<Rightarrow> (fx @ fx', rs'')))"

text \<open>What one socket is sent: the events emitted to it and those emitted to a room it is in.\<close>

fun deliveries :: "sid \<Rightarrow> effect \<Rightarrow> (string \<times> jsval) list" where
  "deliveries c (SocketEmit s ev p) = (if s = c then [(ev, p)] else [])"
| "deliveries c (RoomEmit room ev p members) = (if c \<in> members then [(ev, p)] else [])"
| "deliveries c (HttpPut url body) = []"
| "deliveries c (HttpGet url) = []"
| "deliveries c (AckCall v) = []"

definition received :: "sid \<Rightarrow> effect list \<Rightarrow> (string \<times> jsval) list" where
  "received c fx = concat (map (deliveries c) fx)"

fun is_put :: "effect \<Rightarrow> bool" where
  "is_put (HttpPut url body) = True"
| "is_put e = False"

fun is_get :: "effect \<Rightarrow> bool" where
  "is_get (HttpGet url) = True"
| "is_get e = False"

fun is_room_emit :: "effect \<Rightarrow> bool" where
  "is_room_emit (RoomEmit room ev p members) = True"
| "is_room_emit e = False"

text \<open>A persistence service that answers every PUT with \<open>p\<close> and every GET with \<open>g\<close>.\<close>

definition spring_const :: "js_error + jsval \<Rightarrow> js_error + jsval \<Rightarrow> spring" where
  "spring_const p g = \<lparr>spring_put = (\<lambda>url body. p), spring_get = (\<lambda>url. g)\<rparr>"

fun is_error_emit :: "effect \<Rightarrow> bool" where
  "is_error_emit (SocketEmit s ev p) = (ev = ''error'')"
| "is_error_emit e = False"

text \<open>
  An effect of a handler run for socket \<open>s\<close> on the rooms \<open>rs\<close> is addressed either to
  \<open>s\<close> itself or to all the members of a room.
\<close>

fun addressed :: "rooms \<Rightarrow> sid \<Rightarrow> effect \<Rightarrow> bool" where
  "addressed rs s (SocketEmit s' ev p) = (s' = s)"
| "addressed rs s (RoomEmit room ev p members) = (members = rs room)"
| "addressed rs s e = True"

section \<open>Notions used to state the properties\<close>

text \<open>The two URL templates share this prefix, built from the encoded author and name.\<close>

definition blueprint_url :: "string \<Rightarrow> string \<Rightarrow> string" where
  "blueprint_url a n = ''/api/v1/blueprints/'' @ a @ ''/'' @ n"

text \<open>The payloads that pass the first check of the \<open>draw-event\<close> handler (line 90).\<close>

definition draw_fields_present :: "jsval \<Rightarrow> bool" where
  "draw_fields_present payload =
     (truthy payload \<and> truthy (get_prop payload ''author'') \<and> truthy (get_prop payload ''name'')
      \<and> truthy (get_prop payload ''point''))"

text \<open>The payloads that pass the check of \<open>join-room\<close> and \<open>leave-room\<close> (lines 61, 149).\<close>

definition join_fields_present :: "jsval \<Rightarrow> bool" where
  "join_fields_present payload =
     (truthy payload \<and> truthy (get_prop payload ''author'') \<and> truthy (get_prop payload ''name''))"

text \<open>
  Membership as the history of events tells it: \<open>c\<close> has issued a join for the room, and
  has since neither issued a leave for it nor disconnected.
\<close>

fun joins :: "sid \<Rightarrow> string \<Rightarrow> event \<Rightarrow> bool" where
  "joins c room (JoinRoom s p) =
     (s = c \<and> join_fields_present p
      \<and> roomName (get_prop p ''author'') (get_prop p ''name'') = Inr room)"
| "joins c room e = False"

fun quits :: "sid \<Rightarrow> string \<Rightarrow> event \<Rightarrow> bool" where
  "quits c room (LeaveRoom s p) =
     (s = c \<and> join_fields_present p
      \<and> roomName (get_prop p ''author'') (get_prop p ''name'') = Inr room)"
| "quits c room (Disconnect s) = (s = c)"
| "quits c room e = False"

fun member_by_history :: "sid \<Rightarrow> string \<Rightarrow> event list \<Rightarrow> bool" where
  "member_by_history c room [] = False"
| "member_by_history c room (e # rest) =
     ((joins c room e \<and> \<not> list_ex (quits c room) rest) \<or> member_by_history c room rest)"

subsection \<open>Sample inputs\<close>

definition no_rooms :: rooms where
  "no_rooms = (\<lambda>room. {})"

definition example_point :: jsval where
  "example_point = JObj [(''x'', JNum ''10''), (''y'', JNum ''20'')]"

definition example_payload :: jsval where
  "example_payload =
     JObj [(''author'', JStr ''alice''), (''name'', JStr ''plano1''), (''point'', example_point)]"

definition example_rooms :: rooms where
  "example_rooms = (\<lambda>room. {})(''room:alice-plano1'' := {''A'', ''B''})"

definition timeout_error :: js_error where
  "timeout_error = JsError ''timeout of 5000ms exceeded'' None"

definition example_blueprint :: jsval where
  "example_blueprint =
     JObj [(''author'', JStr ''alice''), (''name'', JStr ''plano1''),
           (''points'', JArr [example_point])]"

text \<open>The wrapper \<open>{status, message, data, timestamp}\<close> of the persistence service.\<close>

definition envelope :: "jsval \<Rightarrow> jsval" where
  "envelope d = JObj [(''status'', JNum ''200''), (''message'', JStr ''ok''), (''data'', d),
                      (''timestamp'', JStr ''2025-01-01T00:00:00Z'')]"

text \<open>
  Two rejections of the HTTP client that carry a response: one whose body has a message,
  and one whose message is an object with an own \<open>toString\<close> property.
\<close>

definition not_found_error :: js_error where
  "not_found_error =
     JsError ''Request failed with status code 404''
       (Some (JObj [(''status'', JNum ''404''), (''message'', JStr ''Blueprint not found'')]))"

definition odd_error :: js_error where
  "odd_error =
     JsError ''Request failed with status code 500''
       (Some (JObj [(''message'', JObj [(''toString'', JNum ''1'')])]))"

text \<open>An author that ends in the unpaired surrogate U+D800.\<close>

definition surrogate_payload :: jsval where
  "surrogate_payload =
     JObj [(''author'', JStr (''al'' @ [CHR 0xED, CHR 0xA0, CHR 0x80])), (''name'', JStr ''plano1''),
           (''point'', example_point)]"

definition spring_ok :: spring where
  "spring_ok = spring_const (Inr JNull) (Inr (envelope example_blueprint))"

definition example_trace :: "(spring \<times> event) list" where
  "example_trace =
     [(spring_ok, JoinRoom ''A'' example_payload),
      (spring_ok, JoinRoom ''B'' example_payload),
      (spring_ok, Disconnect ''A'')]"

section \<open>Room names: collisions and where there are none\<close>

lemma split_at_sep:
  "x \<notin> set a \<Longrightarrow> x \<notin> set b \<Longrightarrow> a @ x # c = b @ x # d \<Longrightarrow> a = b \<and> c = d"
proof (induction a arbitrary: b)
  case Nil
  then show ?case by (cases b) auto
next
  case (Cons y a)
  then show ?case by (cases b) auto
qed

lemma split_at_last_sep:
  assumes "x \<notin> set c" "x \<notin> set d" "a @ x # c = b @ x # d"
  shows "a = b \<and> c = d"
proof -
  have "rev c @ x # rev a = rev d @ x # rev b"
    using arg_cong [OF assms(3), of rev] by simp
  with assms(1,2) have "rev c = rev d \<and> rev a = rev b"
    using split_at_sep [of x "rev c" "rev d" "rev a" "rev b"] by simp
  then show ?thesis by simp
qed

lemma roomName_strings: "roomName (JStr a) (JStr n) = Inr (''room:'' @ a @ ''-'' @ n)"
  by (simp add: roomName_def)

text \<open>
  C2, as stated, fails: the authors \<open>a-b\<close> and \<open>a\<close> with the names \<open>c\<close> and \<open>b-c\<close> are
  two distinct pairs of non-empty strings with the same room name \<open>room:a-b-c\<close>.
\<close>

theorem roomName_collision:
  "roomName (JStr ''a-b'') (JStr ''c'') = roomName (JStr ''a'') (JStr ''b-c'')
   \<and> (''a-b'', ''c'') \<noteq> (''a'', ''b-c'')"
  by (simp add: roomName_strings)

text \<open>
  C2, amended: the room name of a pair of strings is \<open>room:\<close>, the author, a hyphen and the
  name (so it depends on nothing else), and two distinct pairs have distinct room names
  whenever neither author contains a hyphen, or neither name does.
\<close>

theorem roomName_injective_without_hyphen:
  assumes "(a1, n1) \<noteq> (a2, n2)"
    and "(CHR ''-'' \<notin> set a1 \<and> CHR ''-'' \<notin> set a2) \<or> (CHR ''-'' \<notin> set n1 \<and> CHR ''-'' \<notin> set n2)"
  shows "roomName (JStr a1) (JStr n1) = Inr (''room:'' @ a1 @ ''-'' @ n1)
         \<and> roomName (JStr a1) (JStr n1) \<noteq> roomName (JStr a2) (JStr n2)"
proof -
  have "roomName (JStr a1) (JStr n1) \<noteq> roomName (JStr a2) (JStr n2)"
  proof
    assume "roomName (JStr a1) (JStr n1) = roomName (JStr a2) (JStr n2)"
    then have eq: "a1 @ CHR ''-'' # n1 = a2 @ CHR ''-'' # n2"
      by (simp add: roomName_strings)
    from assms(2) have "a1 = a2 \<and> n1 = n2"
    proof
      assume "CHR ''-'' \<notin> set a1 \<and> CHR ''-'' \<notin> set a2"
      with eq show ?thesis using split_at_sep [of "CHR ''-''" a1 a2 n1 n2] by simp
    next
      assume "CHR ''-'' \<notin> set n1 \<and> CHR ''-'' \<notin> set n2"
      with eq show ?thesis using split_at_last_sep [of "CHR ''-''" n1 n2 a1 a2] by simp
    qed
    with assms(1) show False by simp
  qed
  then show ?thesis by (simp add: roomName_strings)
qed

theorem roomName_injective_without_hyphen_witness:
  "(''alice'', ''plano-1'') \<noteq> (''alice'', ''plano-2'')
   \<and> CHR ''-'' \<notin> set ''alice''
   \<and> roomName (JStr ''alice'') (JStr ''plano-1'') = Inr ''room:alice-plano-1''
   \<and> roomName (JStr ''alice'') (JStr ''plano-1'') \<noteq> roomName (JStr ''alice'') (JStr ''plano-2'')"
  using roomName_injective_without_hyphen [of "''alice''" "''plano-1''" "''alice''" "''plano-2''"]
  by auto

section \<open>Facts about the helpers\<close>

lemmas example_defs =
  example_point_def example_payload_def example_rooms_def timeout_error_def example_blueprint_def
  envelope_def spring_const_def spring_ok_def

lemma truthy_get_prop: "truthy (get_prop v k) \<Longrightarrow> truthy v"
  by (cases v) auto

lemma roomName_Inr:
  "roomName author name = Inr room \<Longrightarrow>
   \<exists>a n. to_str author = Inr a \<and> to_str name = Inr n \<and> room = ''room:'' @ a @ ''-'' @ n"
  by (auto simp: roomName_def split: sum.splits)

lemma encodeURIComponent_to_str:
  "encodeURIComponent v = Inr a \<Longrightarrow> \<exists>s. to_str v = Inr s"
  by (auto simp: encodeURIComponent_def split: sum.splits)

lemma encoded_roomName:
  assumes "encodeURIComponent author = Inr a" and "encodeURIComponent name = Inr n"
  shows "\<exists>room. roomName author name = Inr room"
  using encodeURIComponent_to_str [OF assms(1)] encodeURIComponent_to_str [OF assms(2)]
  by (auto simp: roomName_def)

lemma persistPoint_encoded:
  "encodeURIComponent author = Inr a \<Longrightarrow> encodeURIComponent name = Inr n \<Longrightarrow>
   persistPoint sp author name point =
     ([HttpPut (blueprint_url a n @ ''/points'') point],
      spring_put sp (blueprint_url a n @ ''/points'') point)"
  by (simp add: persistPoint_def blueprint_url_def Let_def)

lemma fetchBlueprint_encoded:
  "encodeURIComponent author = Inr a \<Longrightarrow> encodeURIComponent name = Inr n \<Longrightarrow>
   fetchBlueprint sp author name =
     ([HttpGet (blueprint_url a n)],
      (case spring_get sp (blueprint_url a n) of
         Inl e \<Rightarrow> Inl e
       | Inr data \<Rightarrow>
           Inr (if truthy (get_prop data ''data'') then get_prop data ''data'' else JNull)))"
  by (cases "spring_get sp (blueprint_url a n)")
     (auto simp: fetchBlueprint_def blueprint_url_def Let_def dest: truthy_get_prop)

lemma persistPoint_cases:
  "(\<exists>e. persistPoint sp author name point = ([], Inl e)
        \<and> (encodeURIComponent author = Inl e
            \<or> (\<exists>a. encodeURIComponent author = Inr a \<and> encodeURIComponent name = Inl e)))
   \<or> (\<exists>a n. encodeURIComponent author = Inr a \<and> encodeURIComponent name = Inr n
          \<and> persistPoint sp author name point =
              ([HttpPut (blueprint_url a n @ ''/points'') point],
               spring_put sp (blueprint_url a n @ ''/points'') point))"
  by (auto simp: persistPoint_def blueprint_url_def Let_def split: sum.splits)

lemma fetchBlueprint_unencodable:
  "encodeURIComponent author = Inl e
   \<or> (encodeURIComponent author = Inr a \<and> encodeURIComponent name = Inl e) \<Longrightarrow>
   fetchBlueprint sp author name = ([], Inl e)"
  by (auto simp: fetchBlueprint_def)

lemma persistPoint_resolved:
  assumes "persistPoint sp author name point = (fx1, Inr res)"
  shows "\<exists>a n. encodeURIComponent author = Inr a \<and> encodeURIComponent name = Inr n
           \<and> fx1 = [HttpPut (blueprint_url a n @ ''/points'') point]"
  using assms persistPoint_cases [of sp author name point] by auto

lemma fx_of_valid:
  assumes "persistPoint sp author name point = (fx1, Inr res)"
    and "fetchBlueprint sp author name = (fx2, r2)"
  shows "\<exists>put_url get_url. fx1 = [HttpPut put_url point] \<and> fx2 = [HttpGet get_url]"
proof -
  from persistPoint_resolved [OF assms(1)] obtain a n
    where a: "encodeURIComponent author = Inr a" and n: "encodeURIComponent name = Inr n"
      and fx1: "fx1 = [HttpPut (blueprint_url a n @ ''/points'') point]" by blast
  show ?thesis
    using assms(2) fx1 fetchBlueprint_encoded [OF a n, of sp] by auto
qed

lemma example_encoded:
  "encodeURIComponent (JStr ''alice'') = Inr ''alice''"
  "encodeURIComponent (JStr ''plano1'') = Inr ''plano1''"
  by (simp_all add: encodeURIComponent_def percent_encode_def uri_unreserved_def)

lemma example_escape: "encodeURIComponent (JStr ''a b/c'') = Inr ''a%20b%2Fc''"
  by (simp add: encodeURIComponent_def percent_encode_def uri_unreserved_def hex_digit_def)

lemma example_url: "blueprint_url ''alice'' ''plano1'' = ''/api/v1/blueprints/alice/plano1''"
  by (simp add: blueprint_url_def)

lemma example_present: "draw_fields_present example_payload"
  by (simp add: draw_fields_present_def example_defs)

lemma example_room:
  "roomName (get_prop example_payload ''author'') (get_prop example_payload ''name'')
     = Inr ''room:alice-plano1''"
  by (simp add: roomName_def example_defs)

lemma example_persistPoint:
  "persistPoint (spring_const p g) (get_prop example_payload ''author'')
     (get_prop example_payload ''name'') (get_prop example_payload ''point'')
   = ([HttpPut ''/api/v1/blueprints/alice/plano1/points'' example_point], p)"
  using persistPoint_encoded [OF example_encoded, of "spring_const p g" example_point]
  by (simp add: example_url example_payload_def spring_const_def)

lemma example_fetchBlueprint:
  "fetchBlueprint (spring_const p g) (get_prop example_payload ''author'')
     (get_prop example_payload ''name'')
   = ([HttpGet ''/api/v1/blueprints/alice/plano1''],
      (case g of
         Inl e \<Rightarrow> Inl e
       | Inr data \<Rightarrow>
           Inr (if truthy (get_prop data ''data'') then get_prop data ''data'' else JNull)))"
  using fetchBlueprint_encoded [OF example_encoded, of "spring_const p g"]
  by (simp add: example_url example_payload_def spring_const_def)

lemma surrogate_present: "draw_fields_present surrogate_payload"
  by (simp add: draw_fields_present_def surrogate_payload_def example_point_def)

lemma surrogate_room:
  "roomName (get_prop surrogate_payload ''author'') (get_prop surrogate_payload ''name'')
     = Inr (''room:al'' @ [CHR 0xED, CHR 0xA0, CHR 0x80] @ ''-plano1'')"
  by (simp add: roomName_def surrogate_payload_def)

lemma surrogate_unencodable:
  "encodeURIComponent (get_prop surrogate_payload ''author'') = Inl uri_error"
  by (simp add: encodeURIComponent_def surrogate_payload_def)

section \<open>The draw-event handler, branch by branch\<close>

lemma draw_event_missing:
  "\<not> draw_fields_present payload \<Longrightarrow>
   draw_event sp rs s payload ack =
     call_ack ack (ack_fail ''draw-event: missing author, name or point'')
     @ [SocketEmit s ''error'' (msg_obj ''draw-event: missing author, name or point'')]"
  by (auto simp: draw_event_def draw_fields_present_def Let_def)

lemma draw_event_persist_failed:
  assumes "draw_fields_present payload"
    and "roomName (get_prop payload ''author'') (get_prop payload ''name'') = Inr room"
    and "persistPoint sp (get_prop payload ''author'') (get_prop payload ''name'')
           (get_prop payload ''point'') = (fx1, Inl err)"
  shows "draw_event sp rs s payload ack =
     fx1 @ (case persist_failure_msg err of
              Inl e \<Rightarrow> internal_error s ack
            | Inr msg \<Rightarrow> call_ack ack (ack_fail msg) @ [SocketEmit s ''error'' (msg_obj msg)])"
  using assms by (simp add: draw_event_def draw_fields_present_def Let_def split: sum.splits)

lemma draw_event_persisted:
  assumes "draw_fields_present payload"
    and "roomName (get_prop payload ''author'') (get_prop payload ''name'') = Inr room"
    and "persistPoint sp (get_prop payload ''author'') (get_prop payload ''name'')
           (get_prop payload ''point'') = (fx1, Inr res)"
    and "fetchBlueprint sp (get_prop payload ''author'') (get_prop payload ''name'') = (fx2, r)"
  shows "draw_event sp rs s payload ack =
     fx1 @ fx2 @
     (case r of
        Inl err \<Rightarrow>
          call_ack ack (ack_fail (''Failed to fetch updated blueprint: '' @ message err))
          @ [SocketEmit s ''warning''
               (msg_obj (''Failed to fetch updated blueprint: '' @ message err))]
      | Inr doc \<Rightarrow>
          (if truthy doc
           then [RoomEmit room ''blueprint-update'' doc (rs room)] @ call_ack ack ack_ok
           else call_ack ack (ack_fail ''Blueprint not found after persisting point'')
                @ [SocketEmit s ''warning''
                     (msg_obj ''Blueprint not found after persisting point'')]))"
  using assms
  by (simp add: draw_event_def draw_fields_present_def Let_def io_to_emit_def split: sum.splits)

lemmas literal_defs = call_ack_def ack_fail_def ack_ok_def msg_obj_def

text \<open>
  C1, as stated, fails in one case: the report after a failed \<open>persistPoint\<close> does not
  always describe the failure. When the service answers with a body whose \<open>message\<close> is
  an object with an own \<open>toString\<close> property, building the message throws, and the outer
  \<open>catch\<close> reports \<open>Internal server error\<close> to the acknowledgment and
  \<open>Internal server error handling draw-event\<close> in the \<open>error\<close> event.
\<close>

theorem draw_event_persist_failure_generic_report:
  "persistPoint (spring_const (Inl odd_error) (Inr (envelope example_blueprint)))
     (get_prop example_payload ''author'') (get_prop example_payload ''name'')
     (get_prop example_payload ''point'')
   = ([HttpPut ''/api/v1/blueprints/alice/plano1/points'' example_point], Inl odd_error)
   \<and> draw_event (spring_const (Inl odd_error) (Inr (envelope example_blueprint)))
        example_rooms ''A'' example_payload AckFn =
      [HttpPut ''/api/v1/blueprints/alice/plano1/points'' example_point,
       AckCall (JObj [(''ok'', JBool False), (''message'', JStr ''Internal server error'')]),
       SocketEmit ''A'' ''error''
         (JObj [(''message'', JStr ''Internal server error handling draw-event'')])]"
proof -
  have pm: "persist_failure_msg odd_error = Inl type_error"
    by (simp add: persist_failure_msg_def odd_error_def opt_prop_def)
  show ?thesis
    using draw_event_persist_failed [OF example_present example_room
        example_persistPoint [of "Inl odd_error" "Inr (envelope example_blueprint)"],
        of example_rooms "''A''" AckFn] pm
      example_persistPoint [of "Inl odd_error" "Inr (envelope example_blueprint)"]
    by (simp add: internal_error_def literal_defs)
qed

text \<open>
  C1, amended: when author, name and point are present (and the room name can be built)
  and \<open>persistPoint\<close> is rejected, the handler has made at most the PUT request (none
  when the author or name could not be encoded); it calls the acknowledgment (if it is a
  function) with \<open>{ok: false, message}\<close>, emits \<open>error\<close> with a message to the caller,
  and stops: no GET request, nothing emitted to the room. The message is
  \<open>Failed to persist point: \<close> followed by the reason --- the \<open>message\<close> of the
  service's response when it has a truthy one, else the error's own message --- whenever
  the reason converts to a string; when it does not, the acknowledgment says
  \<open>Internal server error\<close> and the event \<open>Internal server error handling draw-event\<close>.
\<close>

theorem draw_event_persist_failure:
  assumes "draw_fields_present payload"
    and "roomName (get_prop payload ''author'') (get_prop payload ''name'') = Inr room"
    and "persistPoint sp (get_prop payload ''author'') (get_prop payload ''name'')
           (get_prop payload ''point'') = (fx1, Inl err)"
  shows "(fx1 = [] \<or> (\<exists>url. fx1 = [HttpPut url (get_prop payload ''point'')]))
     \<and> (\<forall>t. to_str (let r = (case response_data err of
                                None \<Rightarrow> JUndefined
                              | Some d \<Rightarrow> opt_prop d ''message'')
                     in if truthy r then r else JStr (message err)) = Inr t
          \<longrightarrow> draw_event sp rs s payload ack =
                fx1
                @ (if is_function ack
                   then [AckCall (JObj [(''ok'', JBool False),
                                        (''message'', JStr (''Failed to persist point: '' @ t))])]
                   else [])
                @ [SocketEmit s ''error''
                     (JObj [(''message'', JStr (''Failed to persist point: '' @ t))])])
     \<and> (\<forall>e. to_str (let r = (case response_data err of
                                None \<Rightarrow> JUndefined
                              | Some d \<Rightarrow> opt_prop d ''message'')
                     in if truthy r then r else JStr (message err)) = Inl e
          \<longrightarrow> draw_event sp rs s payload ack =
                fx1
                @ (if is_function ack
                   then [AckCall (JObj [(''ok'', JBool False),
                                        (''message'', JStr ''Internal server error'')])]
                   else [])
                @ [SocketEmit s ''error''
                     (JObj [(''message'', JStr ''Internal server error handling draw-event'')])])
     \<and> \<not> list_ex is_get (draw_event sp rs s payload ack)
     \<and> \<not> list_ex is_room_emit (draw_event sp rs s payload ack)"
proof -
  let ?point = "get_prop payload ''point''"
  let ?reason = "let r = (case response_data err of
                            None \<Rightarrow> JUndefined
                          | Some d \<Rightarrow> opt_prop d ''message'')
                 in if truthy r then r else JStr (message err)"
  have fx1: "fx1 = [] \<or> (\<exists>url. fx1 = [HttpPut url ?point])"
    using assms(3)
      persistPoint_cases [of sp "get_prop payload ''author''" "get_prop payload ''name''" ?point]
    by auto
  note ev = draw_event_persist_failed [OF assms, of rs s ack]
  have msg: "persist_failure_msg err =
      (case to_str ?reason of
         Inl e \<Rightarrow> Inl e
       | Inr t \<Rightarrow> Inr (''Failed to persist point: '' @ t))"
    by (simp add: persist_failure_msg_def Let_def)
  show ?thesis
  proof (cases "to_str ?reason")
    case (Inl e)
    then have "persist_failure_msg err = Inl e" using msg by simp
    with ev have "draw_event sp rs s payload ack = fx1 @ internal_error s ack" by simp
    then show ?thesis using Inl fx1
      by (auto simp: internal_error_def literal_defs)
  next
    case (Inr t)
    then have "persist_failure_msg err = Inr (''Failed to persist point: '' @ t)"
      using msg by simp
    with ev have "draw_event sp rs s payload ack =
        fx1 @ call_ack ack (ack_fail (''Failed to persist point: '' @ t))
        @ [SocketEmit s ''error'' (msg_obj (''Failed to persist point: '' @ t))]"
      by simp
    then show ?thesis using Inr fx1
      by (auto simp: literal_defs)
  qed
qed

theorem draw_event_persist_failure_witness:
  "draw_fields_present example_payload
   \<and> draw_event (spring_const (Inl timeout_error) (Inr (envelope example_blueprint)))
        example_rooms ''A'' example_payload AckFn =
      [HttpPut ''/api/v1/blueprints/alice/plano1/points'' example_point,
       AckCall (JObj [(''ok'', JBool False),
                      (''message'', JStr ''Failed to persist point: timeout of 5000ms exceeded'')]),
       SocketEmit ''A'' ''error''
         (JObj [(''message'', JStr ''Failed to persist point: timeout of 5000ms exceeded'')])]
   \<and> draw_event (spring_const (Inl not_found_error) (Inr (envelope example_blueprint)))
        example_rooms ''A'' example_payload (AckVal JUndefined) =
      [HttpPut ''/api/v1/blueprints/alice/plano1/points'' example_point,
       SocketEmit ''A'' ''error''
         (JObj [(''message'', JStr ''Failed to persist point: Blueprint not found'')])]
   \<and> draw_fields_present surrogate_payload
   \<and> draw_event spring_ok example_rooms ''A'' surrogate_payload AckFn =
      [AckCall (JObj [(''ok'', JBool False),
                      (''message'', JStr ''Failed to persist point: URI malformed'')]),
       SocketEmit ''A'' ''error''
         (JObj [(''message'', JStr ''Failed to persist point: URI malformed'')])]"
proof -
  have r1: "to_str (let r = (case response_data timeout_error of
                               None \<Rightarrow> JUndefined
                             | Some d \<Rightarrow> opt_prop d ''message'')
                    in if truthy r then r else JStr (message timeout_error))
            = Inr ''timeout of 5000ms exceeded''"
    by (simp add: timeout_error_def)
  have r2: "to_str (let r = (case response_data not_found_error of
                               None \<Rightarrow> JUndefined
                             | Some d \<Rightarrow> opt_prop d ''message'')
                    in if truthy r then r else JStr (message not_found_error))
            = Inr ''Blueprint not found''"
    by (simp add: not_found_error_def opt_prop_def)
  have r3: "to_str (let r = (case response_data uri_error of
                               None \<Rightarrow> JUndefined
                             | Some d \<Rightarrow> opt_prop d ''message'')
                    in if truthy r then r else JStr (message uri_error))
            = Inr ''URI malformed''"
    by (simp add: uri_error_def)
  have p3: "persistPoint spring_ok (get_prop surrogate_payload ''author'')
              (get_prop surrogate_payload ''name'') (get_prop surrogate_payload ''point'')
            = ([], Inl uri_error)"
    using surrogate_unencodable by (simp add: persistPoint_def)
  from draw_event_persist_failure [OF example_present example_room
         example_persistPoint [of "Inl timeout_error" "Inr (envelope example_blueprint)"],
         of example_rooms "''A''" AckFn]
       draw_event_persist_failure [OF example_present example_room
         example_persistPoint [of "Inl not_found_error" "Inr (envelope example_blueprint)"],
         of example_rooms "''A''" "AckVal JUndefined"]
       draw_event_persist_failure [OF surrogate_present surrogate_room p3,
         of example_rooms "''A''" AckFn]
  show ?thesis using example_present surrogate_present r1 r2 r3
    by simp
qed

text \<open>
  C3: when the fields are present, \<open>persistPoint\<close> resolves and \<open>fetchBlueprint\<close> resolves
  with a document, the handler makes the PUT and the GET request, emits \<open>blueprint-update\<close>
  with that document to the room exactly once, and after that calls the acknowledgment
  (if it is a function) with \<open>{ok: true}\<close>. Every member of the room receives the document
  once, the caller like the others when it is a member; a socket outside the room
  receives nothing.
\<close>

theorem draw_event_success:
  assumes "draw_fields_present payload"
    and "roomName (get_prop payload ''author'') (get_prop payload ''name'') = Inr room"
    and "persistPoint sp (get_prop payload ''author'') (get_prop payload ''name'')
           (get_prop payload ''point'') = (fx1, Inr res)"
    and "fetchBlueprint sp (get_prop payload ''author'') (get_prop payload ''name'')
           = (fx2, Inr doc)"
    and "truthy doc"
  shows "(\<exists>put_url get_url.
            fx1 = [HttpPut put_url (get_prop payload ''point'')] \<and> fx2 = [HttpGet get_url])
         \<and> draw_event sp rs s payload ack =
             fx1 @ fx2 @ [RoomEmit room ''blueprint-update'' doc (rs room)]
             @ (if is_function ack then [AckCall (JObj [(''ok'', JBool True)])] else [])
         \<and> length (filter is_room_emit (draw_event sp rs s payload ack)) = 1
         \<and> (\<forall>c \<in> rs room.
               received c (draw_event sp rs s payload ack) = [(''blueprint-update'', doc)])
         \<and> (s \<in> rs room \<longrightarrow>
               received s (draw_event sp rs s payload ack) = [(''blueprint-update'', doc)])
         \<and> (\<forall>c. c \<notin> rs room \<longrightarrow> received c (draw_event sp rs s payload ack) = [])"
proof -
  from fx_of_valid [OF assms(3,4)] obtain put_url get_url
    where fx: "fx1 = [HttpPut put_url (get_prop payload ''point'')]" "fx2 = [HttpGet get_url]"
    by blast
  have ev: "draw_event sp rs s payload ack =
      fx1 @ fx2 @ [RoomEmit room ''blueprint-update'' doc (rs room)]
      @ (if is_function ack then [AckCall (JObj [(''ok'', JBool True)])] else [])"
    using draw_event_persisted [OF assms(1,2,3,4), of rs s ack] assms(5)
    by (simp add: literal_defs)
  show ?thesis
    unfolding ev using fx by (auto simp: received_def)
qed

theorem draw_event_success_witness:
  "draw_fields_present example_payload
   \<and> truthy example_blueprint
   \<and> ''A'' \<in> example_rooms ''room:alice-plano1''
   \<and> draw_event spring_ok example_rooms ''A'' example_payload AckFn =
      [HttpPut ''/api/v1/blueprints/alice/plano1/points'' example_point,
       HttpGet ''/api/v1/blueprints/alice/plano1'',
       RoomEmit ''room:alice-plano1'' ''blueprint-update'' example_blueprint {''A'', ''B''},
       AckCall (JObj [(''ok'', JBool True)])]
   \<and> draw_event spring_ok example_rooms ''A'' example_payload (AckVal JUndefined) =
      [HttpPut ''/api/v1/blueprints/alice/plano1/points'' example_point,
       HttpGet ''/api/v1/blueprints/alice/plano1'',
       RoomEmit ''room:alice-plano1'' ''blueprint-update'' example_blueprint {''A'', ''B''}]
   \<and> received ''A'' (draw_event spring_ok example_rooms ''A'' example_payload AckFn)
       = [(''blueprint-update'', example_blueprint)]
   \<and> received ''B'' (draw_event spring_ok example_rooms ''A'' example_payload AckFn)
       = [(''blueprint-update'', example_blueprint)]
   \<and> received ''C'' (draw_event spring_ok example_rooms ''A'' example_payload AckFn) = []"
proof -
  have h3: "persistPoint spring_ok (get_prop example_payload ''author'')
              (get_prop example_payload ''name'') (get_prop example_payload ''point'')
            = ([HttpPut ''/api/v1/blueprints/alice/plano1/points'' example_point], Inr JNull)"
    using example_persistPoint [of "Inr JNull" "Inr (envelope example_blueprint)"]
    by (simp add: spring_ok_def)
  have h4: "fetchBlueprint spring_ok (get_prop example_payload ''author'')
              (get_prop example_payload ''name'')
            = ([HttpGet ''/api/v1/blueprints/alice/plano1''], Inr example_blueprint)"
    using example_fetchBlueprint [of "Inr JNull" "Inr (envelope example_blueprint)"]
    by (simp add: spring_ok_def envelope_def example_blueprint_def)
  have h5: "truthy example_blueprint"
    by (simp add: example_blueprint_def)
  have r: "example_rooms ''room:alice-plano1'' = {''A'', ''B''}"
    by (simp add: example_rooms_def)
  from draw_event_success [OF example_present example_room h3 h4 h5,
         of example_rooms "''A''" AckFn]
       draw_event_success [OF example_present example_room h3 h4 h5,
         of example_rooms "''A''" "AckVal JUndefined"]
  show ?thesis using example_present h5 r
    by (simp add: received_def)
qed

text \<open>
  C4: when the fields are present, \<open>persistPoint\<close> resolves and \<open>fetchBlueprint\<close> is
  rejected, the handler calls the acknowledgment (if it is a function) with
  \<open>{ok: false, message}\<close>, emits \<open>warning\<close> to the caller, emits no \<open>error\<close>, and emits
  nothing to the room.
\<close>

theorem draw_event_fetch_failure:
  assumes "draw_fields_present payload"
    and "roomName (get_prop payload ''author'') (get_prop payload ''name'') = Inr room"
    and "persistPoint sp (get_prop payload ''author'') (get_prop payload ''name'')
           (get_prop payload ''point'') = (fx1, Inr res)"
    and "fetchBlueprint sp (get_prop payload ''author'') (get_prop payload ''name'')
           = (fx2, Inl err)"
  shows "(\<exists>put_url get_url.
            fx1 = [HttpPut put_url (get_prop payload ''point'')] \<and> fx2 = [HttpGet get_url])
         \<and> draw_event sp rs s payload ack =
             fx1 @ fx2
             @ (if is_function ack
                then [AckCall (JObj [(''ok'', JBool False),
                                     (''message'',
                                      JStr (''Failed to fetch updated blueprint: '' @ message err))])]
                else [])
             @ [SocketEmit s ''warning''
                  (JObj [(''message'',
                          JStr (''Failed to fetch updated blueprint: '' @ message err))])]
         \<and> get_prop (ack_fail (''Failed to fetch updated blueprint: '' @ message err)) ''ok''
             = JBool False
         \<and> \<not> list_ex is_error_emit (draw_event sp rs s payload ack)
         \<and> \<not> list_ex is_room_emit (draw_event sp rs s payload ack)"
proof -
  from fx_of_valid [OF assms(3,4)] obtain put_url get_url
    where fx: "fx1 = [HttpPut put_url (get_prop payload ''point'')]" "fx2 = [HttpGet get_url]"
    by blast
  have ev: "draw_event sp rs s payload ack =
      fx1 @ fx2
      @ (if is_function ack
         then [AckCall (JObj [(''ok'', JBool False),
                              (''message'',
                               JStr (''Failed to fetch updated blueprint: '' @ message err))])]
         else [])
      @ [SocketEmit s ''warning''
           (JObj [(''message'', JStr (''Failed to fetch updated blueprint: '' @ message err))])]"
    using draw_event_persisted [OF assms(1,2,3,4), of rs s ack] by (simp add: literal_defs)
  show ?thesis
    unfolding ev using fx by (auto simp: ack_fail_def)
qed

theorem draw_event_fetch_failure_witness:
  "draw_fields_present example_payload
   \<and> draw_event (spring_const (Inr JNull) (Inl timeout_error))
        example_rooms ''B'' example_payload AckFn =
      [HttpPut ''/api/v1/blueprints/alice/plano1/points'' example_point,
       HttpGet ''/api/v1/blueprints/alice/plano1'',
       AckCall (JObj [(''ok'', JBool False),
                      (''message'',
                       JStr ''Failed to fetch updated blueprint: timeout of 5000ms exceeded'')]),
       SocketEmit ''B'' ''warning''
         (JObj [(''message'',
                 JStr ''Failed to fetch updated blueprint: timeout of 5000ms exceeded'')])]
   \<and> \<not> list_ex is_error_emit
         (draw_event (spring_const (Inr JNull) (Inl timeout_error))
            example_rooms ''B'' example_payload AckFn)
   \<and> \<not> list_ex is_room_emit
         (draw_event (spring_const (Inr JNull) (Inl timeout_error))
            example_rooms ''B'' example_payload AckFn)"
proof -
  have h4: "fetchBlueprint (spring_const (Inr JNull) (Inl timeout_error))
              (get_prop example_payload ''author'') (get_prop example_payload ''name'')
            = ([HttpGet ''/api/v1/blueprints/alice/plano1''], Inl timeout_error)"
    using example_fetchBlueprint [of "Inr JNull" "Inl timeout_error"] by simp
  have m: "message timeout_error = ''timeout of 5000ms exceeded''"
    by (simp add: timeout_error_def)
  from draw_event_fetch_failure [OF example_present example_room
         example_persistPoint [of "Inr JNull" "Inl timeout_error"] h4,
         of example_rooms "''B''" AckFn]
  show ?thesis using example_present m
    by simp
qed

text \<open>
  C5: when the fields are present, \<open>persistPoint\<close> resolves and \<open>fetchBlueprint\<close> resolves
  with no document (\<open>null\<close>), the handler calls the acknowledgment (if it is a function)
  with \<open>{ok: false, message: 'Blueprint not found after persisting point'}\<close>, emits
  \<open>warning\<close> with that message to the caller, and emits nothing to the room.
\<close>

theorem draw_event_blueprint_absent:
  assumes "draw_fields_present payload"
    and "roomName (get_prop payload ''author'') (get_prop payload ''name'') = Inr room"
    and "persistPoint sp (get_prop payload ''author'') (get_prop payload ''name'')
           (get_prop payload ''point'') = (fx1, Inr res)"
    and "fetchBlueprint sp (get_prop payload ''author'') (get_prop payload ''name'')
           = (fx2, Inr JNull)"
  shows "(\<exists>put_url get_url.
            fx1 = [HttpPut put_url (get_prop payload ''point'')] \<and> fx2 = [HttpGet get_url])
         \<and> draw_event sp rs s payload ack =
             fx1 @ fx2
             @ (if is_function ack
                then [AckCall (JObj [(''ok'', JBool False),
                                     (''message'',
                                      JStr ''Blueprint not found after persisting point'')])]
                else [])
             @ [SocketEmit s ''warning''
                  (JObj [(''message'', JStr ''Blueprint not found after persisting point'')])]
         \<and> \<not> list_ex is_error_emit (draw_event sp rs s payload ack)
         \<and> \<not> list_ex is_room_emit (draw_event sp rs s payload ack)"
proof -
  from fx_of_valid [OF assms(3,4)] obtain put_url get_url
    where fx: "fx1 = [HttpPut put_url (get_prop payload ''point'')]" "fx2 = [HttpGet get_url]"
    by blast
  have ev: "draw_event sp rs s payload ack =
      fx1 @ fx2
      @ (if is_function ack
         then [AckCall (JObj [(''ok'', JBool False),
                              (''message'', JStr ''Blueprint not found after persisting point'')])]
         else [])
      @ [SocketEmit s ''warning''
           (JObj [(''message'', JStr ''Blueprint not found after persisting point'')])]"
    using draw_event_persisted [OF assms(1,2,3,4), of rs s ack] by (simp add: literal_defs)
  show ?thesis
    unfolding ev using fx by auto
qed

theorem draw_event_blueprint_absent_witness:
  "draw_fields_present example_payload
   \<and> draw_event (spring_const (Inr JNull) (Inr (envelope JNull)))
        example_rooms ''A'' example_payload AckFn =
      [HttpPut ''/api/v1/blueprints/alice/plano1/points'' example_point,
       HttpGet ''/api/v1/blueprints/alice/plano1'',
       AckCall (JObj [(''ok'', JBool False),
                      (''message'', JStr ''Blueprint not found after persisting point'')]),
       SocketEmit ''A'' ''warning''
         (JObj [(''message'', JStr ''Blueprint not found after persisting point'')])]
   \<and> draw_event (spring_const (Inr JNull) (Inr (envelope JNull)))
        example_rooms ''A'' example_payload (AckVal JUndefined) =
      [HttpPut ''/api/v1/blueprints/alice/plano1/points'' example_point,
       HttpGet ''/api/v1/blueprints/alice/plano1'',
       SocketEmit ''A'' ''warning''
         (JObj [(''message'', JStr ''Blueprint not found after persisting point'')])]
   \<and> \<not> list_ex is_room_emit
         (draw_event (spring_const (Inr JNull) (Inr (envelope JNull)))
            example_rooms ''A'' example_payload AckFn)"
proof -
  have h4: "fetchBlueprint (spring_const (Inr JNull) (Inr (envelope JNull)))
              (get_prop example_payload ''author'') (get_prop example_payload ''name'')
            = ([HttpGet ''/api/v1/blueprints/alice/plano1''], Inr JNull)"
    using example_fetchBlueprint [of "Inr JNull" "Inr (envelope JNull)"]
    by (simp add: envelope_def)
  from draw_event_blueprint_absent [OF example_present example_room
         example_persistPoint [of "Inr JNull" "Inr (envelope JNull)"] h4,
         of example_rooms "''A''" AckFn]
       draw_event_blueprint_absent [OF example_present example_room
         example_persistPoint [of "Inr JNull" "Inr (envelope JNull)"] h4,
         of example_rooms "''A''" "AckVal JUndefined"]
  show ?thesis using example_present
    by simp
qed

text \<open>
  C6: when the payload is absent, or its author, name or point is missing (or otherwise
  falsy), the handler calls the acknowledgment (if it is a function) with
  \<open>{ok: false, message: 'draw-event: missing author, name or point'}\<close>, emits \<open>error\<close>
  with that message to the caller, and does nothing else: no PUT, no GET, nothing
  emitted to the room.
\<close>

theorem draw_event_validation_failure:
  assumes "\<not> truthy payload \<or> \<not> truthy (get_prop payload ''author'')
           \<or> \<not> truthy (get_prop payload ''name'') \<or> \<not> truthy (get_prop payload ''point'')"
  shows "draw_event sp rs s payload ack =
           (if is_function ack
            then [AckCall (JObj [(''ok'', JBool False),
                                 (''message'', JStr ''draw-event: missing author, name or point'')])]
            else [])
           @ [SocketEmit s ''error''
                (JObj [(''message'', JStr ''draw-event: missing author, name or point'')])]
         \<and> \<not> list_ex is_put (draw_event sp rs s payload ack)
         \<and> \<not> list_ex is_get (draw_event sp rs s payload ack)
         \<and> \<not> list_ex is_room_emit (draw_event sp rs s payload ack)"
proof -
  have "\<not> draw_fields_present payload"
    using assms(1) by (auto simp: draw_fields_present_def)
  from draw_event_missing [OF this, of sp rs s ack] show ?thesis
    by (auto simp: literal_defs)
qed

theorem draw_event_validation_failure_witness:
  "get_prop (JObj [(''author'', JStr ''bob''), (''name'', JStr ''plano1'')]) ''point'' = JUndefined
   \<and> draw_event spring_ok example_rooms ''B''
        (JObj [(''author'', JStr ''bob''), (''name'', JStr ''plano1'')]) AckFn =
      [AckCall (JObj [(''ok'', JBool False),
                      (''message'', JStr ''draw-event: missing author, name or point'')]),
       SocketEmit ''B'' ''error''
         (JObj [(''message'', JStr ''draw-event: missing author, name or point'')])]
   \<and> draw_event spring_ok example_rooms ''B'' JUndefined (AckVal JUndefined) =
      [SocketEmit ''B'' ''error''
         (JObj [(''message'', JStr ''draw-event: missing author, name or point'')])]"
proof -
  let ?p = "JObj [(''author'', JStr ''bob''), (''name'', JStr ''plano1'')]"
  have h: "\<not> truthy ?p \<or> \<not> truthy (get_prop ?p ''author'')
           \<or> \<not> truthy (get_prop ?p ''name'') \<or> \<not> truthy (get_prop ?p ''point'')"
    by simp
  have h': "\<not> truthy JUndefined \<or> \<not> truthy (get_prop JUndefined ''author'')
           \<or> \<not> truthy (get_prop JUndefined ''name'') \<or> \<not> truthy (get_prop JUndefined ''point'')"
    by simp
  from draw_event_validation_failure [OF h, of spring_ok example_rooms "''B''" AckFn]
       draw_event_validation_failure [OF h', of spring_ok example_rooms "''B''" "AckVal JUndefined"]
  show ?thesis
    by simp
qed

section \<open>The join-room handler\<close>

text \<open>
  C7: when author and name are present in a \<open>join-room\<close> payload and the fetch of the
  blueprint is rejected, the handler has already joined the room; it sends one \<open>warning\<close>
  to the joining socket and nothing to any other socket, and the socket is a member of
  the room afterwards (as is everyone who was one before).
\<close>

theorem join_room_fetch_failure:
  assumes "join_fields_present payload"
    and "roomName (get_prop payload ''author'') (get_prop payload ''name'') = Inr room"
    and "fetchBlueprint sp (get_prop payload ''author'') (get_prop payload ''name'')
           = (fx, Inl err)"
  shows "(fx = [] \<or> (\<exists>get_url. fx = [HttpGet get_url]))
     \<and> (\<forall>a n. encodeURIComponent (get_prop payload ''author'') = Inr a
               \<and> encodeURIComponent (get_prop payload ''name'') = Inr n
           \<longrightarrow> fx = [HttpGet (blueprint_url a n)])
     \<and> join_room sp rs s payload =
         (fx @ [SocketEmit s ''warning''
                  (JObj [(''message'', JStr ''Could not fetch blueprint state from API'')])],
          socket_join rs s room)
     \<and> received s (fst (join_room sp rs s payload))
         = [(''warning'', JObj [(''message'', JStr ''Could not fetch blueprint state from API'')])]
     \<and> (\<forall>c. c \<noteq> s \<longrightarrow> received c (fst (join_room sp rs s payload)) = [])
     \<and> s \<in> snd (join_room sp rs s payload) room
     \<and> (\<forall>c r. c \<in> rs r \<longrightarrow> c \<in> snd (join_room sp rs s payload) r)"
proof -
  let ?author = "get_prop payload ''author''" and ?name = "get_prop payload ''name''"
  have shape: "fx = [] \<or> (\<exists>get_url. fx = [HttpGet get_url])"
    using assms(3) by (auto simp: fetchBlueprint_def Let_def split: sum.splits)
  have enc: "fx = [HttpGet (blueprint_url a n)]"
    if "encodeURIComponent ?author = Inr a \<and> encodeURIComponent ?name = Inr n" for a n
    using that assms(3) fetchBlueprint_encoded [of ?author a ?name n sp] by simp
  have ev: "join_room sp rs s payload =
      (fx @ [SocketEmit s ''warning''
               (JObj [(''message'', JStr ''Could not fetch blueprint state from API'')])],
       socket_join rs s room)"
    using assms by (simp add: join_room_def join_fields_present_def Let_def msg_obj_def)
  show ?thesis
    unfolding ev using shape enc by (auto simp: received_def socket_join_def)
qed

theorem join_room_fetch_failure_witness:
  "join_fields_present example_payload
   \<and> join_room (spring_const (Inr JNull) (Inl timeout_error)) no_rooms ''A'' example_payload
      = ([HttpGet ''/api/v1/blueprints/alice/plano1'',
          SocketEmit ''A'' ''warning''
            (JObj [(''message'', JStr ''Could not fetch blueprint state from API'')])],
         socket_join no_rooms ''A'' ''room:alice-plano1'')
   \<and> ''A'' \<in> snd (join_room (spring_const (Inr JNull) (Inl timeout_error)) no_rooms ''A''
                     example_payload) ''room:alice-plano1''"
proof -
  have h1: "join_fields_present example_payload"
    by (simp add: join_fields_present_def example_defs)
  have h3: "fetchBlueprint (spring_const (Inr JNull) (Inl timeout_error))
              (get_prop example_payload ''author'') (get_prop example_payload ''name'')
            = ([HttpGet ''/api/v1/blueprints/alice/plano1''], Inl timeout_error)"
    using example_fetchBlueprint [of "Inr JNull" "Inl timeout_error"] by simp
  from join_room_fetch_failure [OF h1 example_room h3, of no_rooms "''A''"]
  show ?thesis using h1
    by (simp add: socket_join_def)
qed

section \<open>What fetchBlueprint returns\<close>

text \<open>
  C8, as stated, fails: a response whose \<open>data\<close> field is present and not \<open>null\<close> is not
  always returned. For the body \<open>{status: 200, message: 'ok', data: 0, timestamp}\<close> the
  \<open>data\<close> field is \<open>0\<close> and \<open>fetchBlueprint\<close> returns \<open>null\<close>.
\<close>

theorem fetchBlueprint_drops_zero:
  "get_prop (envelope (JNum ''0'')) ''data'' = JNum ''0''
   \<and> snd (fetchBlueprint (spring_const (Inr JNull) (Inr (envelope (JNum ''0''))))
            (JStr ''alice'') (JStr ''plano1'')) = Inr JNull
   \<and> JNull \<noteq> JNum ''0''"
  using fetchBlueprint_encoded [OF example_encoded,
      of "spring_const (Inr JNull) (Inr (envelope (JNum ''0'')))"]
  by (simp add: spring_const_def envelope_def)

text \<open>
  C8, amended: \<open>fetchBlueprint\<close> makes one GET request. When it resolves with a body whose
  \<open>data\<close> field is truthy, the result is that field; when the field is missing, \<open>null\<close> or
  any other falsy value, the result is \<open>null\<close> (absent, not an error); when the request
  is rejected, the result is that rejection, which is not a value at all. (When the
  author or the name cannot be encoded into the URL, no request is made and the result
  is that error.)
\<close>

theorem fetchBlueprint_unwraps_truthy_data:
  "(encodeURIComponent author = Inr a \<and> encodeURIComponent name = Inr n \<longrightarrow>
      (\<forall>body. spring_get sp (blueprint_url a n) = Inr body \<and> truthy (get_prop body ''data'')
            \<longrightarrow> fetchBlueprint sp author name
                  = ([HttpGet (blueprint_url a n)], Inr (get_prop body ''data'')))
       \<and> (\<forall>body. spring_get sp (blueprint_url a n) = Inr body
                  \<and> (get_prop body ''data'' = JUndefined \<or> get_prop body ''data'' = JNull
                      \<or> \<not> truthy (get_prop body ''data''))
            \<longrightarrow> fetchBlueprint sp author name = ([HttpGet (blueprint_url a n)], Inr JNull))
       \<and> (\<forall>err. spring_get sp (blueprint_url a n) = Inl err
            \<longrightarrow> fetchBlueprint sp author name = ([HttpGet (blueprint_url a n)], Inl err)))
   \<and> (\<forall>e. encodeURIComponent author = Inl e
             \<or> (encodeURIComponent author = Inr a \<and> encodeURIComponent name = Inl e)
         \<longrightarrow> fetchBlueprint sp author name = ([], Inl e))"
proof -
  have "fetchBlueprint sp author name = ([], Inl e)"
    if "encodeURIComponent author = Inl e
        \<or> (encodeURIComponent author = Inr a \<and> encodeURIComponent name = Inl e)" for e
    using fetchBlueprint_unencodable [OF that] .
  moreover have "(\<forall>body. spring_get sp (blueprint_url a n) = Inr body
                     \<and> truthy (get_prop body ''data'')
            \<longrightarrow> fetchBlueprint sp author name
                  = ([HttpGet (blueprint_url a n)], Inr (get_prop body ''data'')))
       \<and> (\<forall>body. spring_get sp (blueprint_url a n) = Inr body
                  \<and> (get_prop body ''data'' = JUndefined \<or> get_prop body ''data'' = JNull
                      \<or> \<not> truthy (get_prop body ''data''))
            \<longrightarrow> fetchBlueprint sp author name = ([HttpGet (blueprint_url a n)], Inr JNull))
       \<and> (\<forall>err. spring_get sp (blueprint_url a n) = Inl err
            \<longrightarrow> fetchBlueprint sp author name = ([HttpGet (blueprint_url a n)], Inl err))"
    if "encodeURIComponent author = Inr a" and "encodeURIComponent name = Inr n"
    using fetchBlueprint_encoded [OF that, of sp] by auto
  ultimately show ?thesis by blast
qed

theorem fetchBlueprint_unwraps_truthy_data_witness:
  "truthy (get_prop (envelope example_blueprint) ''data'')
   \<and> fetchBlueprint (spring_const (Inr JNull) (Inr (envelope example_blueprint)))
        (JStr ''alice'') (JStr ''plano1'')
      = ([HttpGet ''/api/v1/blueprints/alice/plano1''], Inr example_blueprint)
   \<and> get_prop (envelope JNull) ''data'' = JNull
   \<and> fetchBlueprint (spring_const (Inr JNull) (Inr (envelope JNull)))
        (JStr ''alice'') (JStr ''plano1'')
      = ([HttpGet ''/api/v1/blueprints/alice/plano1''], Inr JNull)
   \<and> fetchBlueprint (spring_const (Inr JNull) (Inl timeout_error))
        (JStr ''alice'') (JStr ''plano1'')
      = ([HttpGet ''/api/v1/blueprints/alice/plano1''], Inl timeout_error)
   \<and> fetchBlueprint spring_ok (get_prop surrogate_payload ''author'') (JStr ''plano1'')
      = ([], Inl uri_error)"
proof -
  have d1: "get_prop (envelope example_blueprint) ''data'' = example_blueprint"
    and d2: "get_prop (envelope JNull) ''data'' = JNull"
    by (simp_all add: envelope_def)
  have t: "truthy example_blueprint"
    by (simp add: example_blueprint_def)
  from fetchBlueprint_unwraps_truthy_data [of "JStr ''alice''" "''alice''" "JStr ''plano1''"
         "''plano1''" "spring_const (Inr JNull) (Inr (envelope example_blueprint))"]
       fetchBlueprint_unwraps_truthy_data [of "JStr ''alice''" "''alice''" "JStr ''plano1''"
         "''plano1''" "spring_const (Inr JNull) (Inr (envelope JNull))"]
       fetchBlueprint_unwraps_truthy_data [of "JStr ''alice''" "''alice''" "JStr ''plano1''"
         "''plano1''" "spring_const (Inr JNull) (Inl timeout_error)"]
       fetchBlueprint_unwraps_truthy_data [of "get_prop surrogate_payload ''author''" "''x''"
         "JStr ''plano1''" "''plano1''" spring_ok]
  show ?thesis using d1 d2 t example_url example_encoded surrogate_unencodable
    by (simp add: spring_const_def)
qed

lemma falsy_values:
  "\<not> truthy v \<longleftrightarrow> v \<in> {JUndefined, JNull, JBool False, JNum ''0'', JNum ''NaN'', JStr []}"
  by (cases v) auto

text \<open>
  C10: when the GET request resolves with a body whose \<open>data\<close> field is falsy --- missing
  or \<open>null\<close>, but just as well \<open>0\<close>, \<open>false\<close> or the empty string --- \<open>fetchBlueprint\<close>
  returns \<open>null\<close>. A \<open>draw-event\<close> whose point was persisted and whose fetch has such a
  body is then answered with \<open>Blueprint not found after persisting point\<close>: in the
  acknowledgment \<open>{ok: false, message}\<close> (if it is a function) and in a \<open>warning\<close> to the
  caller; nothing is emitted to the room.
\<close>

theorem fetchBlueprint_falsy_data_absent:
  assumes "encodeURIComponent author = Inr a" and "encodeURIComponent name = Inr n"
    and "spring_get sp (blueprint_url a n) = Inr body"
    and "\<not> truthy (get_prop body ''data'')"
  shows "fetchBlueprint sp author name = ([HttpGet (blueprint_url a n)], Inr JNull)
     \<and> (\<forall>payload fx1 res rs s ack.
           draw_fields_present payload
           \<and> get_prop payload ''author'' = author \<and> get_prop payload ''name'' = name
           \<and> persistPoint sp author name (get_prop payload ''point'') = (fx1, Inr res)
           \<longrightarrow> draw_event sp rs s payload ack =
                 fx1 @ [HttpGet (blueprint_url a n)]
                 @ (if is_function ack
                    then [AckCall (JObj [(''ok'', JBool False),
                                         (''message'',
                                          JStr ''Blueprint not found after persisting point'')])]
                    else [])
                 @ [SocketEmit s ''warning''
                      (JObj [(''message'', JStr ''Blueprint not found after persisting point'')])]
               \<and> \<not> list_ex is_room_emit (draw_event sp rs s payload ack))"
proof -
  have f: "fetchBlueprint sp author name = ([HttpGet (blueprint_url a n)], Inr JNull)"
    using fetchBlueprint_encoded [OF assms(1,2), of sp] assms(3,4) by simp
  from encoded_roomName [OF assms(1,2)] obtain room
    where room: "roomName author name = Inr room" by blast
  have "draw_event sp rs s payload ack =
          fx1 @ [HttpGet (blueprint_url a n)]
          @ (if is_function ack
             then [AckCall (JObj [(''ok'', JBool False),
                                  (''message'',
                                   JStr ''Blueprint not found after persisting point'')])]
             else [])
          @ [SocketEmit s ''warning''
               (JObj [(''message'', JStr ''Blueprint not found after persisting point'')])]
        \<and> \<not> list_ex is_room_emit (draw_event sp rs s payload ack)"
    if p: "draw_fields_present payload"
      and au: "get_prop payload ''author'' = author" and na: "get_prop payload ''name'' = name"
      and pp: "persistPoint sp author name (get_prop payload ''point'') = (fx1, Inr res)"
    for payload fx1 res rs s ack
  proof -
    have r: "roomName (get_prop payload ''author'') (get_prop payload ''name'') = Inr room"
      using room au na by simp
    have pp': "persistPoint sp (get_prop payload ''author'') (get_prop payload ''name'')
                 (get_prop payload ''point'') = (fx1, Inr res)"
      using pp au na by simp
    have f': "fetchBlueprint sp (get_prop payload ''author'') (get_prop payload ''name'')
                = ([HttpGet (blueprint_url a n)], Inr JNull)"
      using f au na by simp
    from fx_of_valid [OF pp' f'] obtain put_url
      where fx1: "fx1 = [HttpPut put_url (get_prop payload ''point'')]" by blast
    show ?thesis
      using draw_event_persisted [OF p r pp' f', of rs s ack] fx1
      by (auto simp: literal_defs)
  qed
  with f show ?thesis by blast
qed

theorem fetchBlueprint_falsy_data_absent_witness:
  "get_prop (envelope (JNum ''0'')) ''data'' = JNum ''0''
   \<and> \<not> truthy (get_prop (envelope (JNum ''0'')) ''data'')
   \<and> fetchBlueprint (spring_const (Inr JNull) (Inr (envelope (JNum ''0''))))
        (JStr ''alice'') (JStr ''plano1'')
      = ([HttpGet ''/api/v1/blueprints/alice/plano1''], Inr JNull)
   \<and> draw_fields_present example_payload
   \<and> draw_event (spring_const (Inr JNull) (Inr (envelope (JNum ''0''))))
        example_rooms ''A'' example_payload AckFn =
      [HttpPut ''/api/v1/blueprints/alice/plano1/points'' example_point,
       HttpGet ''/api/v1/blueprints/alice/plano1'',
       AckCall (JObj [(''ok'', JBool False),
                      (''message'', JStr ''Blueprint not found after persisting point'')]),
       SocketEmit ''A'' ''warning''
         (JObj [(''message'', JStr ''Blueprint not found after persisting point'')])]
   \<and> draw_event (spring_const (Inr JNull) (Inr (envelope (JStr []))))
        example_rooms ''A'' example_payload (AckVal JUndefined) =
      [HttpPut ''/api/v1/blueprints/alice/plano1/points'' example_point,
       HttpGet ''/api/v1/blueprints/alice/plano1'',
       SocketEmit ''A'' ''warning''
         (JObj [(''message'', JStr ''Blueprint not found after persisting point'')])]"
proof -
  let ?sp = "spring_const (Inr JNull) (Inr (envelope (JNum ''0'')))"
  let ?sp' = "spring_const (Inr JNull) (Inr (envelope (JStr [])))"
  have h3: "spring_get ?sp (blueprint_url ''alice'' ''plano1'') = Inr (envelope (JNum ''0''))"
    and h3': "spring_get ?sp' (blueprint_url ''alice'' ''plano1'') = Inr (envelope (JStr []))"
    by (simp_all add: spring_const_def)
  have d: "get_prop (envelope (JNum ''0'')) ''data'' = JNum ''0''"
    by (simp add: envelope_def)
  have h4: "\<not> truthy (get_prop (envelope (JNum ''0'')) ''data'')"
    using d by simp
  have h4': "\<not> truthy (get_prop (envelope (JStr [])) ''data'')"
    by (simp add: envelope_def)
  have p2: "get_prop example_payload ''author'' = JStr ''alice''"
    and p3: "get_prop example_payload ''name'' = JStr ''plano1''"
    by (simp_all add: example_payload_def)
  have p5: "persistPoint ?sp (JStr ''alice'') (JStr ''plano1'') (get_prop example_payload ''point'')
            = ([HttpPut ''/api/v1/blueprints/alice/plano1/points'' example_point], Inr JNull)"
    and p5': "persistPoint ?sp' (JStr ''alice'') (JStr ''plano1'') (get_prop example_payload ''point'')
            = ([HttpPut ''/api/v1/blueprints/alice/plano1/points'' example_point], Inr JNull)"
    using example_persistPoint [of "Inr JNull" "Inr (envelope (JNum ''0''))"]
      example_persistPoint [of "Inr JNull" "Inr (envelope (JStr []))"] p2 p3 by simp_all
  from fetchBlueprint_falsy_data_absent [OF example_encoded h3 h4]
       fetchBlueprint_falsy_data_absent [OF example_encoded h3' h4']
  show ?thesis using d h4 example_present p2 p3 p5 p5' example_url
    by simp
qed

section \<open>Membership over the life of the server\<close>

lemma join_room_rooms:
  "snd (join_room sp rs s p) =
     (if join_fields_present p
      then (case roomName (get_prop p ''author'') (get_prop p ''name'') of
              Inl e \<Rightarrow> rs
            | Inr room \<Rightarrow> socket_join rs s room)
      else rs)"
  by (auto simp: join_room_def join_fields_present_def Let_def split: sum.splits prod.splits)

lemma handle_member:
  "c \<in> snd (handle sp rs e) room \<longleftrightarrow> joins c room e \<or> (c \<in> rs room \<and> \<not> quits c room e)"
proof (cases e)
  case (JoinRoom s p)
  then show ?thesis
    by (auto simp: join_room_rooms socket_join_def split: sum.splits)
next
  case (DrawEvent s p a)
  then show ?thesis by simp
next
  case (LeaveRoom s p)
  then show ?thesis
    by (auto simp: leave_room_def join_fields_present_def socket_leave_def split: sum.splits)
next
  case (Disconnect s)
  then show ?thesis
    by (auto simp: disconnect_def removeConnectionEverywhere_def)
qed

lemma run_member:
  "c \<in> snd (run rs tr) room \<longleftrightarrow>
     member_by_history c room (map snd tr)
     \<or> (c \<in> rs room \<and> \<not> list_ex (quits c room) (map snd tr))"
proof (induction tr arbitrary: rs)
  case Nil
  then show ?case by simp
next
  case (Cons x tr)
  obtain sp e where x: "x = (sp, e)" by (cases x)
  obtain fx rs' where h: "handle sp rs e = (fx, rs')" by (cases "handle sp rs e")
  have m: "c \<in> rs' room \<longleftrightarrow> joins c room e \<or> (c \<in> rs room \<and> \<not> quits c room e)"
    using handle_member [of c sp rs e room] h by simp
  have "c \<in> snd (run rs (x # tr)) room \<longleftrightarrow> c \<in> snd (run rs' tr) room"
    using x h by (simp split: prod.splits)
  also have "\<dots> \<longleftrightarrow> member_by_history c room (map snd tr)
     \<or> (c \<in> rs' room \<and> \<not> list_ex (quits c room) (map snd tr))"
    by (rule Cons.IH)
  also have "\<dots> \<longleftrightarrow> member_by_history c room (map snd (x # tr))
     \<or> (c \<in> rs room \<and> \<not> list_ex (quits c room) (map snd (x # tr)))"
    using x m by auto
  finally show ?case .
qed

lemma draw_event_addressed: "\<forall>x \<in> set (draw_event sp rs s p a). addressed rs s x"
  by (auto simp: draw_event_def Let_def call_ack_def internal_error_def io_to_emit_def
      persistPoint_def fetchBlueprint_def split: sum.splits prod.splits if_splits)

lemma join_room_addressed: "\<forall>x \<in> set (fst (join_room sp rs s p)). addressed rs s x"
  by (auto simp: join_room_def Let_def fetchBlueprint_def split: sum.splits prod.splits if_splits)

lemma handle_addressed: "\<forall>x \<in> set (fst (handle sp rs e)). addressed rs (issuer e) x"
  using draw_event_addressed join_room_addressed by (cases e) auto

lemma run_unreached:
  assumes "\<forall>room. c \<notin> rs room" and "\<forall>x \<in> set tr. issuer (snd x) \<noteq> c"
  shows "received c (fst (run rs tr)) = []
         \<and> (\<forall>room ev p members.
               RoomEmit room ev p members \<in> set (fst (run rs tr)) \<longrightarrow> c \<notin> members)
         \<and> (\<forall>room. c \<notin> snd (run rs tr) room)"
  using assms
proof (induction tr arbitrary: rs)
  case Nil
  then show ?case by (simp add: received_def)
next
  case (Cons x tr)
  obtain sp e where x: "x = (sp, e)" by (cases x)
  obtain fx rs' where h: "handle sp rs e = (fx, rs')" by (cases "handle sp rs e")
  obtain fx' rs'' where r: "run rs' tr = (fx', rs'')" by (cases "run rs' tr")
  have ne: "issuer e \<noteq> c" using Cons.prems(2) x by simp
  have "\<not> joins c room e" for room
    using ne by (cases e) auto
  then have rs': "\<forall>room. c \<notin> rs' room"
    using handle_member [of c sp rs e] h Cons.prems(1) by simp
  have ad: "\<forall>y \<in> set fx. addressed rs (issuer e) y"
    using handle_addressed [of sp rs e] h by simp
  have d: "\<forall>y \<in> set fx. deliveries c y = []"
  proof
    fix y assume "y \<in> set fx"
    with ad have "addressed rs (issuer e) y" by blast
    then show "deliveries c y = []"
      using ne Cons.prems(1) by (cases y) auto
  qed
  have e1: "\<forall>room ev p members. RoomEmit room ev p members \<in> set fx \<longrightarrow> c \<notin> members"
  proof (intro allI impI)
    fix room ev p members assume "RoomEmit room ev p members \<in> set fx"
    with ad have "addressed rs (issuer e) (RoomEmit room ev p members)" by blast
    then show "c \<notin> members" using Cons.prems(1) by simp
  qed
  have ih: "received c fx' = []
         \<and> (\<forall>room ev p members. RoomEmit room ev p members \<in> set fx' \<longrightarrow> c \<notin> members)
         \<and> (\<forall>room. c \<notin> rs'' room)"
    using Cons.IH [OF rs'] Cons.prems(2) r by simp
  have run: "run rs (x # tr) = (fx @ fx', rs'')"
    using x h r by simp
  show ?case
    unfolding run using d e1 ih by (auto simp: received_def)
qed

lemma example_draw_event:
  "draw_event spring_ok rs s example_payload AckFn =
     [HttpPut ''/api/v1/blueprints/alice/plano1/points'' example_point,
      HttpGet ''/api/v1/blueprints/alice/plano1'',
      RoomEmit ''room:alice-plano1'' ''blueprint-update'' example_blueprint
        (rs ''room:alice-plano1''),
      AckCall (JObj [(''ok'', JBool True)])]"
proof -
  have h3: "persistPoint spring_ok (get_prop example_payload ''author'')
              (get_prop example_payload ''name'') (get_prop example_payload ''point'')
            = ([HttpPut ''/api/v1/blueprints/alice/plano1/points'' example_point], Inr JNull)"
    using example_persistPoint [of "Inr JNull" "Inr (envelope example_blueprint)"]
    by (simp add: spring_ok_def)
  have h4: "fetchBlueprint spring_ok (get_prop example_payload ''author'')
              (get_prop example_payload ''name'')
            = ([HttpGet ''/api/v1/blueprints/alice/plano1''], Inr example_blueprint)"
    using example_fetchBlueprint [of "Inr JNull" "Inr (envelope example_blueprint)"]
    by (simp add: spring_ok_def envelope_def example_blueprint_def)
  show ?thesis
    using draw_event_persisted [OF example_present example_room h3 h4, of rs s AckFn]
    by (simp add: literal_defs example_blueprint_def)
qed

text \<open>
  C9: a disconnect leaves the connection in no room and changes nobody else's
  membership. Whatever the other connections do afterwards, nothing is delivered to the
  disconnected one: no event emitted to a room has it among the recipients, and it stays
  outside every room. More generally, starting from a server without members, a
  connection is in a room exactly when it has issued a join for that room and has since
  neither issued a leave for it nor disconnected.
\<close>

theorem disconnect_removes_everywhere:
  "(\<forall>room. c \<notin> disconnect rs c room)
   \<and> (\<forall>c' room. c' \<noteq> c \<longrightarrow> (c' \<in> disconnect rs c room \<longleftrightarrow> c' \<in> rs room))
   \<and> (\<forall>tr. (\<forall>x \<in> set tr. issuer (snd x) \<noteq> c) \<longrightarrow>
         received c (fst (run (disconnect rs c) tr)) = []
         \<and> (\<forall>room ev p members.
               RoomEmit room ev p members \<in> set (fst (run (disconnect rs c) tr))
               \<longrightarrow> c \<notin> members)
         \<and> (\<forall>room. c \<notin> snd (run (disconnect rs c) tr) room))
   \<and> (\<forall>tr room. c \<in> snd (run no_rooms tr) room
                  \<longleftrightarrow> member_by_history c room (map snd tr))"
proof -
  have a: "\<forall>room. c \<notin> disconnect rs c room"
    by (simp add: disconnect_def removeConnectionEverywhere_def)
  have b: "\<forall>c' room. c' \<noteq> c \<longrightarrow> (c' \<in> disconnect rs c room \<longleftrightarrow> c' \<in> rs room)"
    by (simp add: disconnect_def removeConnectionEverywhere_def)
  have d: "\<forall>tr room. c \<in> snd (run no_rooms tr) room
                      \<longleftrightarrow> member_by_history c room (map snd tr)"
    using run_member [of c no_rooms] by (simp add: no_rooms_def)
  show ?thesis
    using a b d run_unreached [OF a] by blast
qed

theorem disconnect_removes_everywhere_witness:
  "''A'' \<in> example_rooms ''room:alice-plano1''
   \<and> ''A'' \<notin> disconnect example_rooms ''A'' ''room:alice-plano1''
   \<and> ''B'' \<in> disconnect example_rooms ''A'' ''room:alice-plano1''
   \<and> issuer (DrawEvent ''B'' example_payload AckFn) \<noteq> ''A''
   \<and> fst (run (disconnect example_rooms ''A'')
             [(spring_ok, DrawEvent ''B'' example_payload AckFn)])
      = [HttpPut ''/api/v1/blueprints/alice/plano1/points'' example_point,
         HttpGet ''/api/v1/blueprints/alice/plano1'',
         RoomEmit ''room:alice-plano1'' ''blueprint-update'' example_blueprint {''B''},
         AckCall (JObj [(''ok'', JBool True)])]
   \<and> received ''A'' (fst (run (disconnect example_rooms ''A'')
                             [(spring_ok, DrawEvent ''B'' example_payload AckFn)])) = []
   \<and> member_by_history ''B'' ''room:alice-plano1'' (map snd example_trace)
   \<and> \<not> member_by_history ''A'' ''room:alice-plano1'' (map snd example_trace)
   \<and> ''B'' \<in> snd (run no_rooms example_trace) ''room:alice-plano1''
   \<and> ''A'' \<notin> snd (run no_rooms example_trace) ''room:alice-plano1''"
proof -
  let ?tr = "[(spring_ok, DrawEvent ''B'' example_payload AckFn)]"
  note inst = disconnect_removes_everywhere [of "''A''" example_rooms]
  have j: "join_fields_present example_payload"
    by (simp add: join_fields_present_def example_defs)
  have mB: "member_by_history ''B'' ''room:alice-plano1'' (map snd example_trace)"
    and mA: "\<not> member_by_history ''A'' ''room:alice-plano1'' (map snd example_trace)"
    using j example_room by (simp_all add: example_trace_def)
  have others: "\<forall>x \<in> set ?tr. issuer (snd x) \<noteq> ''A''"
    by simp
  have rooms: "disconnect example_rooms ''A'' ''room:alice-plano1'' = {''B''}"
    by (auto simp: disconnect_def removeConnectionEverywhere_def example_rooms_def)
  have fx: "fst (run (disconnect example_rooms ''A'') ?tr)
      = [HttpPut ''/api/v1/blueprints/alice/plano1/points'' example_point,
         HttpGet ''/api/v1/blueprints/alice/plano1'',
         RoomEmit ''room:alice-plano1'' ''blueprint-update'' example_blueprint {''B''},
         AckCall (JObj [(''ok'', JBool True)])]"
    by (simp add: example_draw_event rooms)
  have quiet: "received ''A'' (fst (run (disconnect example_rooms ''A'') ?tr)) = []"
    using inst others by blast
  have hist: "''B'' \<in> snd (run no_rooms example_trace) ''room:alice-plano1''"
    using disconnect_removes_everywhere [of "''B''" example_rooms] mB by blast
  have hist': "''A'' \<notin> snd (run no_rooms example_trace) ''room:alice-plano1''"
    using inst mA by blast
  show ?thesis
    using mA mB rooms fx quiet hist hist' by (simp add: example_rooms_def)
qed

end
